theory Spec2Isabelle
  imports Main "HOL-Library.AList" "HOL-Library.Sublist"
begin

section \<open>The ANTs registration coordinator of raidionics_maps\<close>

text \<open>
  A shallow embedding of \<^verbatim>\<open>raidionicsmaps/Utils/ants_registration.py\<close>: the class
  \<^verbatim>\<open>ANTsRegistration\<close>, its two backends (\<^verbatim>\<open>python\<close>: calls into the ants library;
  \<^verbatim>\<open>cpp\<close>: runs the ANTs executables as subprocesses) and its three operations
  (compute, apply forward, apply inverse), with the cache clearing.

  The object is a record that every method takes and, where it assigns to \<^verbatim>\<open>self\<close>,
  returns. The world outside the object is a second record: the paths that exist on the
  file system and the history of the calls made to the external toolkit. What the toolkit
  answers is a parameter of every method (the record \<open>toolkit\<close>): whether a call raises,
  and what a call that returns gives back, both as functions of the history so far, so
  that the same call may fail once and succeed later. Every Python exception that a
  method can meet in its own statements (a missing dictionary key, a local variable read
  before assignment, a \<^verbatim>\<open>raise\<close>) is a value of the type \<open>error\<close>; a method returns
  \<open>Inl\<close> of it where the exception leaves the method and goes on where a handler
  swallows it.
\<close>

subsection \<open>Strings and paths\<close>

text \<open>
  \<^verbatim>\<open>os.path\<close> is \<^verbatim>\<open>posixpath\<close>: \<^verbatim>\<open>join\<close> of two components, \<^verbatim>\<open>basename\<close>,
  \<^verbatim>\<open>dirname\<close>. \<open>split_dot_first s\<close> is \<^verbatim>\<open>s.split('.')[0]\<close>.
\<close>

definition os_path_join :: "string \<Rightarrow> string \<Rightarrow> string" where
  "os_path_join a b =
     (if take 1 b = ''/'' then b
      else if a = [] \<or> last a = CHR ''/'' then a @ b
      else a @ ''/'' @ b)"

definition os_path_basename :: "string \<Rightarrow> string" where
  "os_path_basename p = rev (takeWhile (\<lambda>c. c \<noteq> CHR ''/'') (rev p))"

definition os_path_dirname :: "string \<Rightarrow> string" where
  "os_path_dirname p =
     (let head = rev (dropWhile (\<lambda>c. c \<noteq> CHR ''/'') (rev p))
      in if head \<noteq> [] \<and> head \<noteq> replicate (length head) (CHR ''/'')
         then rev (dropWhile (\<lambda>c. c = CHR ''/'') (rev head))
         else head)"

definition split_dot_first :: "string \<Rightarrow> string" where
  "split_dot_first s = takeWhile (\<lambda>c. c \<noteq> CHR ''.'') s"

subsection \<open>Values, errors, the toolkit and the world\<close>

text \<open>
  \<^verbatim>\<open>reg_transform\<close> is a Python dict. With the cpp backend the class itself stores two
  lists of file names in it; with the python backend it is whatever
  \<^verbatim>\<open>ants.registration\<close> returned: lists of file names under \<^verbatim>\<open>fwdtransforms\<close> and
  \<^verbatim>\<open>invtransforms\<close>, and other objects (the warped images) under other keys. A dict is
  an association list in insertion order with unique keys; a value is a list of strings
  or something else (\<open>Other\<close>), on which taking the length or iterating is a
  \<^verbatim>\<open>TypeError\<close>.
\<close>

datatype pyval = StrList "string list" | Other

type_synonym pydict = "(string \<times> pyval) list"

type_synonym image = nat

datatype error = ValueError string | KeyError string | TypeError

text \<open>
  The calls to the external toolkit. \<open>SubprocessCall\<close> is \<^verbatim>\<open>subprocess.call\<close> and
  \<open>SubprocessPopen\<close> is \<^verbatim>\<open>subprocess.Popen\<close> followed by \<^verbatim>\<open>wait()\<close> and
  \<^verbatim>\<open>stdout.read()\<close>, each with the argument vector and the \<^verbatim>\<open>shell\<close> flag.
  \<open>ApplyTransforms fixed moving transformlist interpolator whichtoinvert\<close> is
  \<^verbatim>\<open>ants.apply_transforms\<close>.
\<close>

datatype event =
    ImageRead string
  | Registration image image string
  | ApplyTransforms image image pyval string "bool list"
  | ImageWrite image string
  | SubprocessCall "string list" bool
  | SubprocessPopen "string list" bool

text \<open>
  The toolkit: \<open>raises h e\<close> says whether the call \<open>e\<close>, made after the calls \<open>h\<close>,
  raises an exception; \<open>image_of\<close> and \<open>dict_of\<close> are what a call that returns gives
  back; \<open>exit_status\<close> is the status a subprocess ends with (no method reads it:
  the source drops the value of \<^verbatim>\<open>subprocess.call\<close> and of \<^verbatim>\<open>popen.wait()\<close>);
  \<open>platform_system\<close> is \<^verbatim>\<open>platform.system()\<close>. The \<^verbatim>\<open>import ants\<close> at the head of the
  python methods is taken to succeed.
\<close>

record toolkit =
  raises :: "event list \<Rightarrow> event \<Rightarrow> bool"
  image_of :: "event list \<Rightarrow> event \<Rightarrow> image"
  dict_of :: "event list \<Rightarrow> event \<Rightarrow> pydict"
  exit_status :: "event list \<Rightarrow> event \<Rightarrow> int"
  platform_system :: string

text \<open>
  The file system is the set of the paths that exist, and is idealised: \<^verbatim>\<open>os.makedirs\<close>
  (with \<^verbatim>\<open>exist_ok=True\<close>), \<^verbatim>\<open>os.remove\<close> and \<^verbatim>\<open>shutil.rmtree\<close> always succeed;
  \<^verbatim>\<open>makedirs\<close> records the directory it is given, \<^verbatim>\<open>rmtree\<close> removes the directory and
  every path below it. Messages printed or logged are not modelled.
\<close>

record world =
  fs :: "string \<Rightarrow> bool"
  history :: "event list"

definition os_path_exists :: "string \<Rightarrow> world \<Rightarrow> bool" where
  "os_path_exists p w = fs w p"

definition os_makedirs :: "string \<Rightarrow> world \<Rightarrow> world" where
  "os_makedirs p w = w\<lparr>fs := (fs w)(p := True)\<rparr>"

definition os_remove :: "string \<Rightarrow> world \<Rightarrow> world" where
  "os_remove p w = w\<lparr>fs := (fs w)(p := False)\<rparr>"

definition below :: "string \<Rightarrow> string \<Rightarrow> bool" where
  "below d p = (p = d \<or> prefix (if d \<noteq> [] \<and> last d = CHR ''/'' then d else d @ ''/'') p)"

definition shutil_rmtree :: "string \<Rightarrow> world \<Rightarrow> world" where
  "shutil_rmtree d w = w\<lparr>fs := (\<lambda>p. fs w p \<and> \<not> below d p)\<rparr>"

definition invoke :: "event \<Rightarrow> world \<Rightarrow> world" where
  "invoke e w = w\<lparr>history := history w @ [e]\<rparr>"

subsection \<open>The object\<close>

record shared_resources =
  sr_ants_reg_dir :: string
  sr_ants_apply_dir :: string
  sr_maps_output_folder :: string
  sr_system_ants_backend :: string

record ants_registration =
  ants_reg_dir :: string
  ants_apply_dir :: string
  registration_folder :: string
  reg_transform :: pydict
  transform_names :: "string list"
  inverse_transform_names :: "string list"
  registration_computed :: bool
  backend :: string

text \<open>\<^verbatim>\<open>__init__\<close>: the fields from the shared resources, the folder created.\<close>

definition init :: "shared_resources \<Rightarrow> world \<Rightarrow> ants_registration \<times> world" where
  "init res w =
     (let folder = os_path_join (sr_maps_output_folder res) ''registration/''
      in (\<lparr>ants_reg_dir = sr_ants_reg_dir res,
           ants_apply_dir = sr_ants_apply_dir res,
           registration_folder = folder,
           reg_transform = [],
           transform_names = [],
           inverse_transform_names = [],
           registration_computed = False,
           backend = sr_system_ants_backend res\<rparr>,
          os_makedirs folder w))"

subsection \<open>Clearing the cache\<close>

fun remove_existing :: "string list \<Rightarrow> world \<Rightarrow> world" where
  "remove_existing [] w = w"
| "remove_existing (elem # rest) w =
     remove_existing rest (if os_path_exists elem w then os_remove elem w else w)"


definition clear_output_folder :: "ants_registration \<Rightarrow> world \<Rightarrow> world" where
  "clear_output_folder s w =
     (if os_path_exists (registration_folder s) w
      then shutil_rmtree (registration_folder s) w else w)"

subsection \<open>Computing the registration\<close>

text \<open>
  \<^verbatim>\<open>compute_registration_cpp\<close>. The handler of its \<^verbatim>\<open>try\<close> prints and the method
  returns, so a call that raises leaves the object as it was and the result is a normal
  return. The status of the script is dropped.
\<close>

definition compute_registration_cpp ::
  "toolkit \<Rightarrow> ants_registration \<Rightarrow> world \<Rightarrow> string \<Rightarrow> string \<Rightarrow> string
     \<Rightarrow> (error + unit) \<times> ants_registration \<times> world" where
  "compute_registration_cpp tk s w moving fixed registration_method =
     (let method1 = (if registration_method = ''SyN'' then ''sq'' else registration_method);
          script_path =
            (if method1 = ''sq''
             then os_path_join (ants_reg_dir s) ''antsRegistrationSyNQuick.sh''
             else os_path_join (ants_reg_dir s) ''antsRegistrationSyN.sh'');
          method2 = (if method1 = ''sq'' then ''s'' else method1);
          e = SubprocessCall
                [script_path, ''-d3'', ''-f'' @ fixed, ''-m'' @ moving,
                 ''-o'' @ registration_folder s, ''-t'' @ method2, ''-n8'']
                (platform_system tk = ''Windows'')
      in if raises tk (history w) e then (Inr (), s, invoke e w)
         else if method2 = ''s'' then
           (Inr (),
            s\<lparr>reg_transform :=
                 AList.update ''invtransforms''
                   (StrList [os_path_join (registration_folder s) ''1InverseWarp.nii.gz'',
                             os_path_join (registration_folder s) ''0GenericAffine.mat''])
                   (AList.update ''fwdtransforms''
                      (StrList [os_path_join (registration_folder s) ''1Warp.nii.gz'',
                                os_path_join (registration_folder s) ''0GenericAffine.mat''])
                      (reg_transform s)),
               transform_names := [''1Warp.nii.gz'', ''0GenericAffine.mat''],
               inverse_transform_names := [''1InverseWarp.nii.gz'', ''0GenericAffine.mat'']\<rparr>,
            invoke e w)
         else (Inr (), s, invoke e w))"

text \<open>
  \<^verbatim>\<open>compute_registration_python\<close>. Every statement is inside the \<^verbatim>\<open>try\<close>, whose
  handler raises the \<^verbatim>\<open>ValueError\<close>. The assignment to \<^verbatim>\<open>self.reg_transform\<close> stays
  when a later statement fails.
\<close>

definition python_registration_failed :: error where
  "python_registration_failed = ValueError (''Python-based ANTs registration failed.'' @ [CHR 0x0A])"

definition compute_registration_python ::
  "toolkit \<Rightarrow> ants_registration \<Rightarrow> world \<Rightarrow> string \<Rightarrow> string \<Rightarrow> string
     \<Rightarrow> (error + unit) \<times> ants_registration \<times> world" where
  "compute_registration_python tk s w moving fixed registration_method =
     (let e1 = ImageRead moving
      in if raises tk (history w) e1 then (Inl python_registration_failed, s, invoke e1 w)
      else
      let moving_ants = image_of tk (history w) e1;
          w1 = invoke e1 w;
          e2 = ImageRead fixed
      in if raises tk (history w1) e2 then (Inl python_registration_failed, s, invoke e2 w1)
      else
      let fixed_ants = image_of tk (history w1) e2;
          w2 = invoke e2 w1;
          method1 =
            (if registration_method = ''antsRegistrationSyNQuick[s]''
                \<or> registration_method = ''antsRegistrationSyN[s]''
             then ''SyN'' else registration_method);
          e3 = Registration fixed_ants moving_ants method1
      in if raises tk (history w2) e3 then (Inl python_registration_failed, s, invoke e3 w2)
      else
      let s1 = s\<lparr>reg_transform := dict_of tk (history w2) e3\<rparr>;
          w3 = invoke e3 w2
      in case map_of (reg_transform s1) ''fwdtransforms'' of
           None \<Rightarrow> (Inl python_registration_failed, s1, w3)
         | Some transformlist \<Rightarrow>
             (let e4 = ApplyTransforms fixed_ants moving_ants transformlist ''linear'' [False, False]
              in if raises tk (history w3) e4
                 then (Inl python_registration_failed, s1, invoke e4 w3)
                 else
                 let warped_input = image_of tk (history w3) e4;
                     w4 = invoke e4 w3;
                     warped_input_filename =
                       os_path_join (registration_folder s1) ''registered_input_volume.nii.gz'';
                     e5 = ImageWrite warped_input warped_input_filename
                 in if raises tk (history w4) e5
                    then (Inl python_registration_failed, s1, invoke e5 w4)
                    else (Inr (), s1, invoke e5 w4)))"

definition compute_registration ::
  "toolkit \<Rightarrow> ants_registration \<Rightarrow> world \<Rightarrow> string \<Rightarrow> string \<Rightarrow> string
     \<Rightarrow> (error + unit) \<times> ants_registration \<times> world" where
  "compute_registration tk s w moving fixed registration_method =
     (if length (transform_names s) \<noteq> 0 \<and> length (inverse_transform_names s) \<noteq> 0
      then (Inr (), s, w)
      else
        let w1 = os_makedirs (registration_folder s) w
        in case (if backend s = ''python''
                 then compute_registration_python tk s w1 moving fixed registration_method
                 else if backend s = ''cpp''
                 then compute_registration_cpp tk s w1 moving fixed registration_method
                 else (Inr (), s, w1)) of
             (Inl e, s1, w2) \<Rightarrow> (Inl e, s1, w2)
           | (Inr u, s1, w2) \<Rightarrow> (Inr (), s1\<lparr>registration_computed := True\<rparr>, w2))"

subsection \<open>Applying the forward chain\<close>

text \<open>
  \<^verbatim>\<open>apply_registration_transform_cpp\<close>. The lookup of \<^verbatim>\<open>fwdtransforms\<close> and the
  \<^verbatim>\<open>raise\<close> for the empty list stand before the \<^verbatim>\<open>try\<close>, so their exceptions leave
  the method as they are. The chain of \<^verbatim>\<open>if\<close>/\<^verbatim>\<open>elif\<close> assigns \<^verbatim>\<open>args\<close> for the
  lengths 4, 2 and 1 only: for any other length but 0 the name is unbound
  (\<open>Inr None\<close> below), reading it inside the \<^verbatim>\<open>try\<close> raises
  \<^verbatim>\<open>UnboundLocalError\<close>, and the handler turns that, like an exception of the
  subprocess, into the \<^verbatim>\<open>ValueError\<close>.
\<close>

definition cpp_apply_failed :: error where
  "cpp_apply_failed = ValueError (''Cpp-based ANTs apply registration failed.'' @ [CHR 0x0A])"

definition apply_registration_transform_cpp ::
  "toolkit \<Rightarrow> ants_registration \<Rightarrow> world \<Rightarrow> string \<Rightarrow> string \<Rightarrow> string
     \<Rightarrow> (error + string option) \<times> world" where
  "apply_registration_transform_cpp tk s w moving fixed interpolation =
     (let optimization_method = (if interpolation = ''linear'' then ''Linear'' else ''NearestNeighbor'');
          script_path = os_path_join (ants_apply_dir s) ''antsApplyTransforms''
      in case map_of (reg_transform s) ''fwdtransforms'' of
           None \<Rightarrow> (Inl (KeyError ''fwdtransforms''), w)
         | Some transform_filenames \<Rightarrow>
             (let moving_registered_filename =
                    os_path_join (registration_folder s)
                      (split_dot_first (os_path_basename moving) @ ''_reg_atlas.nii.gz'')
              in case transform_filenames of
                   Other \<Rightarrow> (Inl TypeError, w)
                 | StrList tf \<Rightarrow>
                     (case
                        (if length tf = 4 then
                           Inr (Some [script_path, ''-d'', ''3'', ''-r'', fixed, ''-i'', moving,
                                      ''-t'', tf ! 0, ''-t'', tf ! 1, ''-t'', tf ! 2, ''-t'', tf ! 3,
                                      ''-o'', moving_registered_filename, ''-n'', optimization_method])
                         else if length tf = 2 then
                           Inr (Some [script_path, ''-d'', ''3'', ''-r'', fixed, ''-i'', moving,
                                      ''-t'', tf ! 0, ''-t'', tf ! 1,
                                      ''-o'', moving_registered_filename, ''-n'', optimization_method])
                         else if length tf = 1 then
                           Inr (Some [script_path, ''-d'', ''3'', ''-r'', fixed, ''-i'', moving,
                                      ''-t'', tf ! 0,
                                      ''-o'', moving_registered_filename, ''-n'', optimization_method])
                         else if length tf = 0 then
                           Inl (ValueError ''List of transforms is empty.'')
                         else Inr None) of
                        Inl raised \<Rightarrow> (Inl raised, w)
                      | Inr None \<Rightarrow> (Inl cpp_apply_failed, w)
                      | Inr (Some args) \<Rightarrow>
                          (let e = SubprocessPopen args (platform_system tk = ''Windows'')
                           in if raises tk (history w) e
                              then (Inl cpp_apply_failed, invoke e w)
                              else (Inr (Some moving_registered_filename), invoke e w)))))"

text \<open>\<^verbatim>\<open>apply_registration_transform_python\<close>: every statement is inside the \<^verbatim>\<open>try\<close>.\<close>

definition python_apply_failed :: error where
  "python_apply_failed = ValueError (''Python-based ANTs apply registration failed.'' @ [CHR 0x0A])"

definition apply_registration_transform_python ::
  "toolkit \<Rightarrow> ants_registration \<Rightarrow> world \<Rightarrow> string \<Rightarrow> string \<Rightarrow> string
     \<Rightarrow> (error + string option) \<times> world" where
  "apply_registration_transform_python tk s w moving fixed interpolation =
     (let e1 = ImageRead moving
      in if raises tk (history w) e1 then (Inl python_apply_failed, invoke e1 w)
      else
      let moving_ants = image_of tk (history w) e1;
          w1 = invoke e1 w;
          e2 = ImageRead fixed
      in if raises tk (history w1) e2 then (Inl python_apply_failed, invoke e2 w1)
      else
      let fixed_ants = image_of tk (history w1) e2;
          w2 = invoke e2 w1
      in case map_of (reg_transform s) ''fwdtransforms'' of
           None \<Rightarrow> (Inl python_apply_failed, w2)
         | Some transformlist \<Rightarrow>
             (let e3 = ApplyTransforms fixed_ants moving_ants transformlist interpolation [False, False]
              in if raises tk (history w2) e3 then (Inl python_apply_failed, invoke e3 w2)
                 else
                 let warped_input = image_of tk (history w2) e3;
                     w3 = invoke e3 w2;
                     warped_input_filename =
                       os_path_join (registration_folder s) ''warped_input_to_output_space.nii.gz'';
                     e4 = ImageWrite warped_input warped_input_filename
                 in if raises tk (history w3) e4 then (Inl python_apply_failed, invoke e4 w3)
                    else (Inr (Some warped_input_filename), invoke e4 w3)))"

text \<open>The dispatcher falls off its end, returning \<^verbatim>\<open>None\<close>, for any other backend.\<close>

definition apply_registration_transform ::
  "toolkit \<Rightarrow> ants_registration \<Rightarrow> world \<Rightarrow> string \<Rightarrow> string \<Rightarrow> string
     \<Rightarrow> (error + string option) \<times> world" where
  "apply_registration_transform tk s w moving fixed interpolation =
     (let w1 = os_makedirs (registration_folder s) w
      in if backend s = ''python''
         then apply_registration_transform_python tk s w1 moving fixed interpolation
         else if backend s = ''cpp''
         then apply_registration_transform_cpp tk s w1 moving fixed interpolation
         else (Inr None, w1))"

subsection \<open>Applying the inverse chain\<close>

text \<open>
  \<^verbatim>\<open>apply_registration_inverse_transform_cpp\<close>: as the forward method, with the file
  names at the odd places written \<^verbatim>\<open>[name, 1]\<close> (\<open>inverted\<close>), and with a handler
  that prints: after an exception inside the \<^verbatim>\<open>try\<close> the method falls off its end and
  returns \<^verbatim>\<open>None\<close>.
\<close>

definition inverted :: "string \<Rightarrow> string" where
  "inverted transform = ''['' @ transform @ '', 1]''"

definition apply_registration_inverse_transform_cpp ::
  "toolkit \<Rightarrow> ants_registration \<Rightarrow> world \<Rightarrow> string \<Rightarrow> string \<Rightarrow> string \<Rightarrow> string
     \<Rightarrow> (error + string option) \<times> world" where
  "apply_registration_inverse_transform_cpp tk s w moving fixed interpolation label =
     (let optimization_method =
            (if interpolation = ''nearestNeighbor'' then ''NearestNeighbor'' else ''Linear'');
          script_path = os_path_join (ants_apply_dir s) ''antsApplyTransforms''
      in case map_of (reg_transform s) ''invtransforms'' of
           None \<Rightarrow> (Inl (KeyError ''invtransforms''), w)
         | Some transform_filenames \<Rightarrow>
             (let moving_registered_filename =
                    os_path_join (registration_folder s) (label @ ''_mask_to_input.nii.gz'');
                  w1 = os_makedirs (os_path_dirname moving_registered_filename) w
              in case transform_filenames of
                   Other \<Rightarrow> (Inl TypeError, w1)
                 | StrList tf \<Rightarrow>
                     (case
                        (if length tf = 4 then
                           Inr (Some [script_path, ''-d'', ''3'', ''-r'', fixed, ''-i'', moving,
                                      ''-t'', tf ! 0, ''-t'', inverted (tf ! 1),
                                      ''-t'', tf ! 2, ''-t'', inverted (tf ! 3),
                                      ''-o'', moving_registered_filename, ''-n'', optimization_method])
                         else if length tf = 2 then
                           Inr (Some [script_path, ''-d'', ''3'', ''-r'', fixed, ''-i'', moving,
                                      ''-t'', tf ! 0, ''-t'', inverted (tf ! 1),
                                      ''-o'', moving_registered_filename, ''-n'', optimization_method])
                         else if length tf = 1 then
                           Inr (Some [script_path, ''-d'', ''3'', ''-r'', fixed, ''-i'', moving,
                                      ''-t'', inverted (tf ! 0),
                                      ''-o'', moving_registered_filename, ''-n'', optimization_method])
                         else if length tf = 0 then
                           Inl (ValueError ''List of transforms is empty.'')
                         else Inr None) of
                        Inl raised \<Rightarrow> (Inl raised, w1)
                      | Inr None \<Rightarrow> (Inr None, w1)
                      | Inr (Some args) \<Rightarrow>
                          (let e = SubprocessPopen args (platform_system tk = ''Windows'')
                           in if raises tk (history w1) e
                              then (Inr None, invoke e w1)
                              else (Inr (Some moving_registered_filename), invoke e w1)))))"

text \<open>
  \<^verbatim>\<open>apply_registration_inverse_transform_python\<close>: every statement is inside the
  \<^verbatim>\<open>try\<close>, and the handler prints, so every failure ends in \<^verbatim>\<open>None\<close>.
\<close>

definition apply_registration_inverse_transform_python ::
  "toolkit \<Rightarrow> ants_registration \<Rightarrow> world \<Rightarrow> string \<Rightarrow> string \<Rightarrow> string \<Rightarrow> string
     \<Rightarrow> (error + string option) \<times> world" where
  "apply_registration_inverse_transform_python tk s w moving fixed interpolation label =
     (let e1 = ImageRead moving
      in if raises tk (history w) e1 then (Inr None, invoke e1 w)
      else
      let moving_ants = image_of tk (history w) e1;
          w1 = invoke e1 w;
          e2 = ImageRead fixed
      in if raises tk (history w1) e2 then (Inr None, invoke e2 w1)
      else
      let fixed_ants = image_of tk (history w1) e2;
          w2 = invoke e2 w1
      in case map_of (reg_transform s) ''invtransforms'' of
           None \<Rightarrow> (Inr None, w2)
         | Some transformlist \<Rightarrow>
             (let e3 = ApplyTransforms fixed_ants moving_ants transformlist interpolation [True, False]
              in if raises tk (history w2) e3 then (Inr None, invoke e3 w2)
                 else
                 let warped_input = image_of tk (history w2) e3;
                     w3 = invoke e3 w2;
                     warped_input_filename =
                       os_path_join (registration_folder s) (label @ ''_mask.nii.gz'');
                     w4 = os_makedirs (os_path_dirname warped_input_filename) w3;
                     e4 = ImageWrite warped_input warped_input_filename
                 in if raises tk (history w4) e4 then (Inr None, invoke e4 w4)
                    else (Inr (Some warped_input_filename), invoke e4 w4)))"

definition apply_registration_inverse_transform ::
  "toolkit \<Rightarrow> ants_registration \<Rightarrow> world \<Rightarrow> string \<Rightarrow> string \<Rightarrow> string \<Rightarrow> string
     \<Rightarrow> (error + string option) \<times> world" where
  "apply_registration_inverse_transform tk s w moving fixed interpolation label =
     (let w1 = os_makedirs (registration_folder s) w
      in if backend s = ''python''
         then apply_registration_inverse_transform_python tk s w1 moving fixed interpolation label
         else if backend s = ''cpp''
         then apply_registration_inverse_transform_cpp tk s w1 moving fixed interpolation label
         else (Inr None, w1))"

subsection \<open>What an operation did\<close>

text \<open>
  The calls an operation made are the ones it appended to the history.
  \<open>some_call_raised\<close> says that one of them raised, each asked of the toolkit after the
  calls before it; \<open>no_call_after_failure\<close> says that a call that raised was the last.
\<close>

definition new_calls :: "world \<Rightarrow> world \<Rightarrow> event list" where
  "new_calls w w' = drop (length (history w)) (history w')"

fun some_call_raised :: "toolkit \<Rightarrow> event list \<Rightarrow> event list \<Rightarrow> bool" where
  "some_call_raised tk h [] = False"
| "some_call_raised tk h (e # es) = (raises tk h e \<or> some_call_raised tk (h @ [e]) es)"

fun no_call_after_failure :: "toolkit \<Rightarrow> event list \<Rightarrow> event list \<Rightarrow> bool" where
  "no_call_after_failure tk h [] = True"
| "no_call_after_failure tk h (e # es) =
     (if raises tk h e then es = [] else no_call_after_failure tk (h @ [e]) es)"

fun is_subprocess :: "event \<Rightarrow> bool" where
  "is_subprocess (SubprocessCall args shell) = True"
| "is_subprocess (SubprocessPopen args shell) = True"
| "is_subprocess e = False"

fun is_registration :: "event \<Rightarrow> bool" where
  "is_registration (Registration fixed moving registration_method) = True"
| "is_registration e = False"

fun is_apply_transforms :: "event \<Rightarrow> bool" where
  "is_apply_transforms (ApplyTransforms fixed moving transformlist interpolator whichtoinvert) = True"
| "is_apply_transforms e = False"

definition single_attempt :: "toolkit \<Rightarrow> world \<Rightarrow> world \<Rightarrow> bool" where
  "single_attempt tk w w' =
     (let calls = new_calls w w'
      in history w' = history w @ calls
         \<and> length (filter is_subprocess calls) \<le> 1
         \<and> length (filter is_registration calls) \<le> 1
         \<and> length (filter is_apply_transforms calls) \<le> 1
         \<and> no_call_after_failure tk (history w) calls)"

subsection \<open>Concrete toolkits, objects and worlds\<close>

text \<open>
  \<open>tk_ok\<close> never raises; its registration writes its transforms to temporary files
  whose names change from one registration to the next, as the ants library does.
  \<open>tk_exit_1\<close> is the same toolkit with subprocesses that end with status 1,
  \<open>tk_raising\<close> raises at every call, \<open>tk_registration_raises\<close> at the registration
  only.
\<close>

definition tmp_name :: "event list \<Rightarrow> string \<Rightarrow> string" where
  "tmp_name h ending = ''/tmp/tmp'' @ replicate (length h) (CHR ''a'') @ ending"

definition tk_ok :: toolkit where
  "tk_ok =
     \<lparr>raises = (\<lambda>h e. False),
      image_of = (\<lambda>h e. length h),
      dict_of = (\<lambda>h e.
        [(''warpedmovout'', Other),
         (''fwdtransforms'', StrList [tmp_name h ''1Warp.nii.gz'', tmp_name h ''0GenericAffine.mat'']),
         (''invtransforms'', StrList [tmp_name h ''0GenericAffine.mat'', tmp_name h ''1InverseWarp.nii.gz''])]),
      exit_status = (\<lambda>h e. 0),
      platform_system = ''Linux''\<rparr>"

definition tk_exit_1 :: toolkit where
  "tk_exit_1 = tk_ok\<lparr>exit_status := (\<lambda>h e. 1)\<rparr>"

definition tk_raising :: toolkit where
  "tk_raising = tk_ok\<lparr>raises := (\<lambda>h e. True)\<rparr>"

definition tk_registration_raises :: toolkit where
  "tk_registration_raises = tk_ok\<lparr>raises := (\<lambda>h e. is_registration e)\<rparr>"

definition w_empty :: world where
  "w_empty = \<lparr>fs = (\<lambda>p. False), history = []\<rparr>"

definition resources :: "string \<Rightarrow> shared_resources" where
  "resources b =
     \<lparr>sr_ants_reg_dir = ''/opt/ants/Scripts'',
      sr_ants_apply_dir = ''/opt/ants/bin'',
      sr_maps_output_folder = ''/out'',
      sr_system_ants_backend = b\<rparr>"

text \<open>A fresh object, and an object whose chains hold the given file names.\<close>

definition fresh :: "string \<Rightarrow> ants_registration" where
  "fresh b = fst (init (resources b) w_empty)"

definition with_chain :: "string \<Rightarrow> string list \<Rightarrow> ants_registration" where
  "with_chain b names =
     (fresh b)\<lparr>reg_transform := [(''fwdtransforms'', StrList names), (''invtransforms'', StrList names)]\<rparr>"

text \<open>
  An object after a registration that succeeded, from the fresh object of the backend, and
  a world with files: the folder of the registrations with a file in it, the temporary
  files of a python registration, and a file of the user.
\<close>

definition computed :: "string \<Rightarrow> ants_registration" where
  "computed b =
     fst (snd (compute_registration tk_ok (fresh b) w_empty ''moving.nii.gz'' ''fixed.nii.gz'' ''SyN''))"

definition w_files :: world where
  "w_files =
     \<lparr>fs = (\<lambda>p. p \<in> set [''/out/registration/'',
                           ''/out/registration/registered_input_volume.nii.gz'',
                           ''/tmp/tmpaa1Warp.nii.gz'', ''/tmp/tmpaa0GenericAffine.mat'',
                           ''/tmp/tmpaa1InverseWarp.nii.gz'', ''/home/user/t1.nii.gz'']),
      history = []\<rparr>"

section \<open>Properties\<close>

lemmas example_defs = tk_ok_def tk_exit_1_def tk_raising_def tk_registration_raises_def w_empty_def
  resources_def fresh_def with_chain_def tmp_name_def init_def w_files_def

lemmas path_defs = os_path_join_def os_path_basename_def os_path_dirname_def split_dot_first_def

lemmas world_defs = os_makedirs_def os_remove_def os_path_exists_def shutil_rmtree_def
  invoke_def new_calls_def

lemmas op_defs = compute_registration_def compute_registration_python_def
  compute_registration_cpp_def apply_registration_transform_def
  apply_registration_transform_python_def apply_registration_transform_cpp_def
  apply_registration_inverse_transform_def apply_registration_inverse_transform_python_def
  apply_registration_inverse_transform_cpp_def

subsection \<open>The outcomes of the backend methods\<close>

text \<open>
  One rule for each backend method: a property holds of what the method returns when it
  holds of every outcome the method has, each with the answers of the toolkit that lead to
  it. The rules keep the case analysis of a method in one place.
\<close>

lemma history_os_makedirs [simp]: "history (os_makedirs p w) = history w"
  by (simp add: os_makedirs_def)

lemma compute_python_rule:
  fixes tk s w moving fixed registration_method
  defines "h \<equiv> history w"
  defines "e1 \<equiv> ImageRead moving" and "e2 \<equiv> ImageRead fixed"
  defines "method1 \<equiv> (if registration_method = ''antsRegistrationSyNQuick[s]''
                      \<or> registration_method = ''antsRegistrationSyN[s]''
                   then ''SyN'' else registration_method)"
  defines "e3 \<equiv> Registration (image_of tk (h @ [e1]) e2) (image_of tk h e1) method1"
  defines "s1 \<equiv> s\<lparr>reg_transform := dict_of tk (h @ [e1, e2]) e3\<rparr>"
  defines "e4 \<equiv> \<lambda>tl. ApplyTransforms (image_of tk (h @ [e1]) e2) (image_of tk h e1) tl
                        ''linear'' [False, False]"
  defines "e5 \<equiv> \<lambda>tl. ImageWrite (image_of tk (h @ [e1, e2, e3]) (e4 tl))
                        (os_path_join (registration_folder s) ''registered_input_volume.nii.gz'')"
  assumes "raises tk h e1 \<Longrightarrow> P (Inl python_registration_failed, s, w\<lparr>history := h @ [e1]\<rparr>)"
    and "\<not> raises tk h e1 \<Longrightarrow> raises tk (h @ [e1]) e2 \<Longrightarrow>
           P (Inl python_registration_failed, s, w\<lparr>history := h @ [e1, e2]\<rparr>)"
    and "\<not> raises tk h e1 \<Longrightarrow> \<not> raises tk (h @ [e1]) e2 \<Longrightarrow> raises tk (h @ [e1, e2]) e3 \<Longrightarrow>
           P (Inl python_registration_failed, s, w\<lparr>history := h @ [e1, e2, e3]\<rparr>)"
    and "\<not> raises tk h e1 \<Longrightarrow> \<not> raises tk (h @ [e1]) e2 \<Longrightarrow> \<not> raises tk (h @ [e1, e2]) e3 \<Longrightarrow>
           map_of (reg_transform s1) ''fwdtransforms'' = None \<Longrightarrow>
           P (Inl python_registration_failed, s1, w\<lparr>history := h @ [e1, e2, e3]\<rparr>)"
    and "\<And>tl. \<not> raises tk h e1 \<Longrightarrow> \<not> raises tk (h @ [e1]) e2 \<Longrightarrow> \<not> raises tk (h @ [e1, e2]) e3 \<Longrightarrow>
           map_of (reg_transform s1) ''fwdtransforms'' = Some tl \<Longrightarrow>
           raises tk (h @ [e1, e2, e3]) (e4 tl) \<Longrightarrow>
           P (Inl python_registration_failed, s1, w\<lparr>history := h @ [e1, e2, e3, e4 tl]\<rparr>)"
    and "\<And>tl. \<not> raises tk h e1 \<Longrightarrow> \<not> raises tk (h @ [e1]) e2 \<Longrightarrow> \<not> raises tk (h @ [e1, e2]) e3 \<Longrightarrow>
           map_of (reg_transform s1) ''fwdtransforms'' = Some tl \<Longrightarrow>
           \<not> raises tk (h @ [e1, e2, e3]) (e4 tl) \<Longrightarrow>
           raises tk (h @ [e1, e2, e3, e4 tl]) (e5 tl) \<Longrightarrow>
           P (Inl python_registration_failed, s1, w\<lparr>history := h @ [e1, e2, e3, e4 tl, e5 tl]\<rparr>)"
    and "\<And>tl. \<not> raises tk h e1 \<Longrightarrow> \<not> raises tk (h @ [e1]) e2 \<Longrightarrow> \<not> raises tk (h @ [e1, e2]) e3 \<Longrightarrow>
           map_of (reg_transform s1) ''fwdtransforms'' = Some tl \<Longrightarrow>
           \<not> raises tk (h @ [e1, e2, e3]) (e4 tl) \<Longrightarrow>
           \<not> raises tk (h @ [e1, e2, e3, e4 tl]) (e5 tl) \<Longrightarrow>
           P (Inr (), s1, w\<lparr>history := h @ [e1, e2, e3, e4 tl, e5 tl]\<rparr>)"
  shows "P (compute_registration_python tk s w moving fixed registration_method)"
  using assms(9-)
  unfolding compute_registration_python_def Let_def invoke_def h_def e1_def e2_def
    e3_def e4_def e5_def s1_def method1_def [symmetric]
  by (simp split: option.splits)

lemma compute_cpp_rule:
  fixes tk s w moving fixed registration_method
  defines "method1 \<equiv> (if registration_method = ''SyN'' then ''sq'' else registration_method)"
  defines "method2 \<equiv> (if method1 = ''sq'' then ''s'' else method1)"
  defines "e \<equiv> SubprocessCall
                [if method1 = ''sq''
                 then os_path_join (ants_reg_dir s) ''antsRegistrationSyNQuick.sh''
                 else os_path_join (ants_reg_dir s) ''antsRegistrationSyN.sh'',
                 ''-d3'', ''-f'' @ fixed, ''-m'' @ moving,
                 ''-o'' @ registration_folder s, ''-t'' @ method2, ''-n8'']
                (platform_system tk = ''Windows'')"
  assumes "raises tk (history w) e \<Longrightarrow> P (Inr (), s, invoke e w)"
    and "\<not> raises tk (history w) e \<Longrightarrow> method2 \<noteq> ''s'' \<Longrightarrow> P (Inr (), s, invoke e w)"
    and "\<not> raises tk (history w) e \<Longrightarrow> method2 = ''s'' \<Longrightarrow>
           P (Inr (),
              s\<lparr>reg_transform :=
                   AList.update ''invtransforms''
                     (StrList [os_path_join (registration_folder s) ''1InverseWarp.nii.gz'',
                               os_path_join (registration_folder s) ''0GenericAffine.mat''])
                     (AList.update ''fwdtransforms''
                        (StrList [os_path_join (registration_folder s) ''1Warp.nii.gz'',
                                  os_path_join (registration_folder s) ''0GenericAffine.mat''])
                        (reg_transform s)),
                 transform_names := [''1Warp.nii.gz'', ''0GenericAffine.mat''],
                 inverse_transform_names := [''1InverseWarp.nii.gz'', ''0GenericAffine.mat'']\<rparr>,
              invoke e w)"
  shows "P (compute_registration_cpp tk s w moving fixed registration_method)"
proof -
  have unfolded: "compute_registration_cpp tk s w moving fixed registration_method =
      (if raises tk (history w) e then (Inr (), s, invoke e w)
       else if method2 = ''s'' then
         (Inr (),
              s\<lparr>reg_transform :=
                   AList.update ''invtransforms''
                     (StrList [os_path_join (registration_folder s) ''1InverseWarp.nii.gz'',
                               os_path_join (registration_folder s) ''0GenericAffine.mat''])
                     (AList.update ''fwdtransforms''
                        (StrList [os_path_join (registration_folder s) ''1Warp.nii.gz'',
                                  os_path_join (registration_folder s) ''0GenericAffine.mat''])
                        (reg_transform s)),
                 transform_names := [''1Warp.nii.gz'', ''0GenericAffine.mat''],
                 inverse_transform_names := [''1InverseWarp.nii.gz'', ''0GenericAffine.mat'']\<rparr>,
              invoke e w)
       else (Inr (), s, invoke e w))"
    unfolding compute_registration_cpp_def Let_def e_def method2_def method1_def
    by (rule refl)
  show ?thesis
    unfolding unfolded using assms(4-) by (simp del: append.simps)
qed

lemma apply_python_rule:
  fixes tk s w moving fixed interpolation
  defines "h \<equiv> history w"
  defines "e1 \<equiv> ImageRead moving" and "e2 \<equiv> ImageRead fixed"
  defines "e3 \<equiv> \<lambda>tl. ApplyTransforms (image_of tk (h @ [e1]) e2) (image_of tk h e1) tl interpolation [False, False]"
  defines "out \<equiv> os_path_join (registration_folder s) ''warped_input_to_output_space.nii.gz''"
  defines "e4 \<equiv> \<lambda>tl. ImageWrite (image_of tk (h @ [e1, e2]) (e3 tl)) out"
  assumes "raises tk h e1 \<Longrightarrow> P (Inl python_apply_failed, w\<lparr>history := h @ [e1]\<rparr>)"
    and "\<not> raises tk h e1 \<Longrightarrow> raises tk (h @ [e1]) e2 \<Longrightarrow>
           P (Inl python_apply_failed, w\<lparr>history := h @ [e1, e2]\<rparr>)"
    and "\<not> raises tk h e1 \<Longrightarrow> \<not> raises tk (h @ [e1]) e2 \<Longrightarrow>
           map_of (reg_transform s) ''fwdtransforms'' = None \<Longrightarrow>
           P (Inl python_apply_failed, w\<lparr>history := h @ [e1, e2]\<rparr>)"
    and "\<And>tl. \<not> raises tk h e1 \<Longrightarrow> \<not> raises tk (h @ [e1]) e2 \<Longrightarrow>
           map_of (reg_transform s) ''fwdtransforms'' = Some tl \<Longrightarrow>
           raises tk (h @ [e1, e2]) (e3 tl) \<Longrightarrow>
           P (Inl python_apply_failed, w\<lparr>history := h @ [e1, e2, e3 tl]\<rparr>)"
    and "\<And>tl. \<not> raises tk h e1 \<Longrightarrow> \<not> raises tk (h @ [e1]) e2 \<Longrightarrow>
           map_of (reg_transform s) ''fwdtransforms'' = Some tl \<Longrightarrow>
           \<not> raises tk (h @ [e1, e2]) (e3 tl) \<Longrightarrow>
           raises tk (h @ [e1, e2, e3 tl]) (e4 tl) \<Longrightarrow>
           P (Inl python_apply_failed, w\<lparr>history := h @ [e1, e2, e3 tl, e4 tl]\<rparr>)"
    and "\<And>tl. \<not> raises tk h e1 \<Longrightarrow> \<not> raises tk (h @ [e1]) e2 \<Longrightarrow>
           map_of (reg_transform s) ''fwdtransforms'' = Some tl \<Longrightarrow>
           \<not> raises tk (h @ [e1, e2]) (e3 tl) \<Longrightarrow>
           \<not> raises tk (h @ [e1, e2, e3 tl]) (e4 tl) \<Longrightarrow>
           P (Inr (Some out), w\<lparr>history := h @ [e1, e2, e3 tl, e4 tl]\<rparr>)"
  shows "P (apply_registration_transform_python tk s w moving fixed interpolation)"
  using assms(7-)
  unfolding apply_registration_transform_python_def Let_def invoke_def h_def e1_def e2_def
    e3_def e4_def out_def
  by (simp split: option.splits)

lemma handled_length_cases:
  obtains (empty) "tf = []" | (one) a where "tf = [a]" | (two) a b where "tf = [a, b]"
  | (four) a b c d where "tf = [a, b, c, d]"
  | (unhandled) "length tf \<noteq> 0" "length tf \<noteq> 1" "length tf \<noteq> 2" "length tf \<noteq> 4"
proof (cases "length tf = 0 \<or> length tf = 1 \<or> length tf = 2 \<or> length tf = 4")
  case True
  then show thesis
    using empty one two four
    by (auto simp: length_Suc_conv eval_nat_numeral)
next
  case False
  then show thesis using unhandled by simp
qed

lemma apply_cpp_rule:
  fixes tk s w moving fixed interpolation
  defines "out \<equiv> os_path_join (registration_folder s)
                    (split_dot_first (os_path_basename moving) @ ''_reg_atlas.nii.gz'')"
  defines "optimization_method \<equiv> (if interpolation = ''linear'' then ''Linear'' else ''NearestNeighbor'')"
  defines "e \<equiv> \<lambda>tf. SubprocessPopen
                  ([os_path_join (ants_apply_dir s) ''antsApplyTransforms'',
                    ''-d'', ''3'', ''-r'', fixed, ''-i'', moving]
                   @ concat (map (\<lambda>t. [''-t'', t]) tf)
                   @ [''-o'', out, ''-n'', optimization_method])
                  (platform_system tk = ''Windows'')"
  assumes none: "map_of (reg_transform s) ''fwdtransforms'' = None \<Longrightarrow>
           P (Inl (KeyError ''fwdtransforms''), w)"
    and other: "map_of (reg_transform s) ''fwdtransforms'' = Some Other \<Longrightarrow> P (Inl TypeError, w)"
    and empty: "map_of (reg_transform s) ''fwdtransforms'' = Some (StrList []) \<Longrightarrow>
           P (Inl (ValueError ''List of transforms is empty.''), w)"
    and unhandled: "\<And>tf. map_of (reg_transform s) ''fwdtransforms'' = Some (StrList tf) \<Longrightarrow>
           length tf \<noteq> 0 \<Longrightarrow> length tf \<noteq> 1 \<Longrightarrow> length tf \<noteq> 2 \<Longrightarrow> length tf \<noteq> 4 \<Longrightarrow>
           P (Inl cpp_apply_failed, w)"
    and raised: "\<And>tf. map_of (reg_transform s) ''fwdtransforms'' = Some (StrList tf) \<Longrightarrow>
           length tf = 1 \<or> length tf = 2 \<or> length tf = 4 \<Longrightarrow>
           raises tk (history w) (e tf) \<Longrightarrow> P (Inl cpp_apply_failed, invoke (e tf) w)"
    and returned: "\<And>tf. map_of (reg_transform s) ''fwdtransforms'' = Some (StrList tf) \<Longrightarrow>
           length tf = 1 \<or> length tf = 2 \<or> length tf = 4 \<Longrightarrow>
           \<not> raises tk (history w) (e tf) \<Longrightarrow> P (Inr (Some out), invoke (e tf) w)"
  shows "P (apply_registration_transform_cpp tk s w moving fixed interpolation)"
proof (cases "map_of (reg_transform s) ''fwdtransforms''")
  case None
  then show ?thesis
    using none by (simp add: apply_registration_transform_cpp_def Let_def)
next
  case (Some v)
  note d = apply_registration_transform_cpp_def Let_def e_def optimization_method_def out_def
  show ?thesis
  proof (cases v)
    case Other
    with Some show ?thesis using other by (simp add: d)
  next
    case (StrList tf)
    show ?thesis
    proof (cases tf rule: handled_length_cases)
      case empty
      with Some StrList show ?thesis using assms(6) by (simp add: d)
    next
      case (one a)
      with Some StrList show ?thesis
        using raised [of tf] returned [of tf]
        by (cases "interpolation = ''linear''") (simp_all add: d)
    next
      case (two a b)
      with Some StrList show ?thesis
        using raised [of tf] returned [of tf]
        by (cases "interpolation = ''linear''") (simp_all add: d)
    next
      case (four a b c d)
      with Some StrList show ?thesis
        using raised [of tf] returned [of tf]
        by (cases "interpolation = ''linear''") (simp_all add: d)
    next
      case unhandled
      with Some StrList show ?thesis
        using assms(7) [of tf] by (simp add: d)
    qed
  qed
qed

lemma inverse_python_rule:
  fixes tk s w moving fixed interpolation label
  defines "h \<equiv> history w"
  defines "e1 \<equiv> ImageRead moving" and "e2 \<equiv> ImageRead fixed"
  defines "e3 \<equiv> \<lambda>tl. ApplyTransforms (image_of tk (h @ [e1]) e2) (image_of tk h e1) tl
                        interpolation [True, False]"
  defines "out \<equiv> os_path_join (registration_folder s) (label @ ''_mask.nii.gz'')"
  defines "e4 \<equiv> \<lambda>tl. ImageWrite (image_of tk (h @ [e1, e2]) (e3 tl)) out"
  defines "w4 \<equiv> os_makedirs (os_path_dirname out) w"
  assumes "raises tk h e1 \<Longrightarrow> P (Inr None, w\<lparr>history := h @ [e1]\<rparr>)"
    and "\<not> raises tk h e1 \<Longrightarrow> raises tk (h @ [e1]) e2 \<Longrightarrow>
           P (Inr None, w\<lparr>history := h @ [e1, e2]\<rparr>)"
    and "\<not> raises tk h e1 \<Longrightarrow> \<not> raises tk (h @ [e1]) e2 \<Longrightarrow>
           map_of (reg_transform s) ''invtransforms'' = None \<Longrightarrow>
           P (Inr None, w\<lparr>history := h @ [e1, e2]\<rparr>)"
    and "\<And>tl. \<not> raises tk h e1 \<Longrightarrow> \<not> raises tk (h @ [e1]) e2 \<Longrightarrow>
           map_of (reg_transform s) ''invtransforms'' = Some tl \<Longrightarrow>
           raises tk (h @ [e1, e2]) (e3 tl) \<Longrightarrow>
           P (Inr None, w\<lparr>history := h @ [e1, e2, e3 tl]\<rparr>)"
    and "\<And>tl. \<not> raises tk h e1 \<Longrightarrow> \<not> raises tk (h @ [e1]) e2 \<Longrightarrow>
           map_of (reg_transform s) ''invtransforms'' = Some tl \<Longrightarrow>
           \<not> raises tk (h @ [e1, e2]) (e3 tl) \<Longrightarrow>
           raises tk (h @ [e1, e2, e3 tl]) (e4 tl) \<Longrightarrow>
           P (Inr None, w4\<lparr>history := h @ [e1, e2, e3 tl, e4 tl]\<rparr>)"
    and "\<And>tl. \<not> raises tk h e1 \<Longrightarrow> \<not> raises tk (h @ [e1]) e2 \<Longrightarrow>
           map_of (reg_transform s) ''invtransforms'' = Some tl \<Longrightarrow>
           \<not> raises tk (h @ [e1, e2]) (e3 tl) \<Longrightarrow>
           \<not> raises tk (h @ [e1, e2, e3 tl]) (e4 tl) \<Longrightarrow>
           P (Inr (Some out), w4\<lparr>history := h @ [e1, e2, e3 tl, e4 tl]\<rparr>)"
  shows "P (apply_registration_inverse_transform_python tk s w moving fixed interpolation label)"
  using assms(8-)
  unfolding apply_registration_inverse_transform_python_def Let_def invoke_def h_def e1_def e2_def
    e3_def e4_def out_def w4_def os_makedirs_def
  by (simp split: option.splits)

lemma inverse_cpp_rule:
  fixes tk s w moving fixed interpolation label
  defines "out \<equiv> os_path_join (registration_folder s) (label @ ''_mask_to_input.nii.gz'')"
  defines "optimization_method \<equiv>
             (if interpolation = ''nearestNeighbor'' then ''NearestNeighbor'' else ''Linear'')"
  defines "w1 \<equiv> os_makedirs (os_path_dirname out) w"
  defines "e \<equiv> \<lambda>tf. SubprocessPopen
                  ([os_path_join (ants_apply_dir s) ''antsApplyTransforms'',
                    ''-d'', ''3'', ''-r'', fixed, ''-i'', moving]
                   @ concat (map (\<lambda>i. [''-t'', if odd (length tf - i) then inverted (tf ! i) else tf ! i])
                               [0..<length tf])
                   @ [''-o'', out, ''-n'', optimization_method])
                  (platform_system tk = ''Windows'')"
  assumes none: "map_of (reg_transform s) ''invtransforms'' = None \<Longrightarrow>
           P (Inl (KeyError ''invtransforms''), w)"
    and other: "map_of (reg_transform s) ''invtransforms'' = Some Other \<Longrightarrow> P (Inl TypeError, w1)"
    and empty: "map_of (reg_transform s) ''invtransforms'' = Some (StrList []) \<Longrightarrow>
           P (Inl (ValueError ''List of transforms is empty.''), w1)"
    and unhandled: "\<And>tf. map_of (reg_transform s) ''invtransforms'' = Some (StrList tf) \<Longrightarrow>
           length tf \<noteq> 0 \<Longrightarrow> length tf \<noteq> 1 \<Longrightarrow> length tf \<noteq> 2 \<Longrightarrow> length tf \<noteq> 4 \<Longrightarrow>
           P (Inr None, w1)"
    and raised: "\<And>tf. map_of (reg_transform s) ''invtransforms'' = Some (StrList tf) \<Longrightarrow>
           length tf = 1 \<or> length tf = 2 \<or> length tf = 4 \<Longrightarrow>
           raises tk (history w) (e tf) \<Longrightarrow> P (Inr None, invoke (e tf) w1)"
    and returned: "\<And>tf. map_of (reg_transform s) ''invtransforms'' = Some (StrList tf) \<Longrightarrow>
           length tf = 1 \<or> length tf = 2 \<or> length tf = 4 \<Longrightarrow>
           \<not> raises tk (history w) (e tf) \<Longrightarrow> P (Inr (Some out), invoke (e tf) w1)"
  shows "P (apply_registration_inverse_transform_cpp tk s w moving fixed interpolation label)"
proof (cases "map_of (reg_transform s) ''invtransforms''")
  case None
  then show ?thesis
    using none by (simp add: apply_registration_inverse_transform_cpp_def Let_def)
next
  case (Some v)
  note d = apply_registration_inverse_transform_cpp_def Let_def e_def optimization_method_def
    out_def w1_def
  show ?thesis
  proof (cases v)
    case Other
    with Some show ?thesis using other by (simp add: d)
  next
    case (StrList tf)
    show ?thesis
    proof (cases tf rule: handled_length_cases)
      case empty
      with Some StrList show ?thesis using assms(7) by (simp add: d)
    next
      case (one a)
      with Some StrList show ?thesis
        using raised [of tf] returned [of tf]
        by (cases "interpolation = ''nearestNeighbor''") (simp_all add: d)
    next
      case (two a b)
      with Some StrList show ?thesis
        using raised [of tf] returned [of tf]
        by (cases "interpolation = ''nearestNeighbor''") (simp_all add: d)
    next
      case (four a b c d)
      with Some StrList show ?thesis
        using raised [of tf] returned [of tf]
        by (cases "interpolation = ''nearestNeighbor''") (simp_all add: d)
    next
      case unhandled
      with Some StrList show ?thesis
        using assms(8) [of tf] by (simp add: d)
    qed
  qed
qed

lemma new_calls_same [simp]: "new_calls w (os_makedirs p w) = []"
  by (simp add: new_calls_def)

lemma new_calls_refl [simp]: "new_calls w w = []"
  by (simp add: new_calls_def)

lemma single_attempt_no_call: "history w' = history w \<Longrightarrow> single_attempt tk w w'"
  by (simp add: single_attempt_def new_calls_def)

lemma world_of_compute_registration:
  "snd (snd (compute_registration tk s w moving fixed registration_method)) =
     (if transform_names s \<noteq> [] \<and> inverse_transform_names s \<noteq> [] then w
      else if backend s = ''python''
      then snd (snd (compute_registration_python tk s (os_makedirs (registration_folder s) w)
                       moving fixed registration_method))
      else if backend s = ''cpp''
      then snd (snd (compute_registration_cpp tk s (os_makedirs (registration_folder s) w)
                       moving fixed registration_method))
      else os_makedirs (registration_folder s) w)"
  by (simp add: compute_registration_def Let_def split: prod.splits sum.splits)

lemma result_of_compute_registration:
  "fst (compute_registration tk s w moving fixed registration_method) =
     (if transform_names s \<noteq> [] \<and> inverse_transform_names s \<noteq> [] then Inr ()
      else if backend s = ''python''
      then fst (compute_registration_python tk s (os_makedirs (registration_folder s) w)
                  moving fixed registration_method)
      else if backend s = ''cpp''
      then fst (compute_registration_cpp tk s (os_makedirs (registration_folder s) w)
                  moving fixed registration_method)
      else Inr ())"
  by (simp add: compute_registration_def Let_def split: prod.splits sum.splits)

lemma single_attempt_compute_python:
  "single_attempt tk w
     (snd (snd (compute_registration_python tk s (os_makedirs p w) moving fixed registration_method)))"
  by (rule compute_python_rule) (simp_all add: single_attempt_def new_calls_def)

lemma single_attempt_compute_cpp:
  "single_attempt tk w
     (snd (snd (compute_registration_cpp tk s (os_makedirs p w) moving fixed registration_method)))"
  by (rule compute_cpp_rule) (simp_all add: single_attempt_def new_calls_def invoke_def)

lemma single_attempt_apply_python:
  "single_attempt tk w
     (snd (apply_registration_transform_python tk s (os_makedirs p w) moving fixed interpolation))"
  by (rule apply_python_rule) (simp_all add: single_attempt_def new_calls_def)

lemma single_attempt_apply_cpp:
  "single_attempt tk w
     (snd (apply_registration_transform_cpp tk s (os_makedirs p w) moving fixed interpolation))"
  by (rule apply_cpp_rule) (simp_all add: single_attempt_def new_calls_def invoke_def)

lemma single_attempt_inverse_python:
  "single_attempt tk w
     (snd (apply_registration_inverse_transform_python tk s (os_makedirs p w) moving fixed
             interpolation label))"
  by (rule inverse_python_rule) (simp_all add: single_attempt_def new_calls_def)

lemma single_attempt_inverse_cpp:
  "single_attempt tk w
     (snd (apply_registration_inverse_transform_cpp tk s (os_makedirs p w) moving fixed
             interpolation label))"
  by (rule inverse_cpp_rule) (simp_all add: single_attempt_def new_calls_def invoke_def)

subsection \<open>Paths, files and the evaluated objects\<close>

lemma history_remove_existing [simp]: "history (remove_existing xs w) = history w"
  by (induction xs arbitrary: w) (simp_all add: os_remove_def)






text \<open>The objects after a registration that succeeded, evaluated.\<close>

lemma computed_cpp:
  "computed ''cpp'' =
     (fresh ''cpp'')
       \<lparr>reg_transform :=
          [(''fwdtransforms'', StrList [''/out/registration/1Warp.nii.gz'',
                                         ''/out/registration/0GenericAffine.mat'']),
           (''invtransforms'', StrList [''/out/registration/1InverseWarp.nii.gz'',
                                         ''/out/registration/0GenericAffine.mat''])],
        transform_names := [''1Warp.nii.gz'', ''0GenericAffine.mat''],
        inverse_transform_names := [''1InverseWarp.nii.gz'', ''0GenericAffine.mat''],
        registration_computed := True\<rparr>"
  by (simp add: computed_def example_defs path_defs world_defs op_defs Let_def)


subsection \<open>The cache guard of the registration\<close>

text \<open>
  The guard of \<^verbatim>\<open>compute_registration\<close> reads \<^verbatim>\<open>transform_names\<close> and
  \<^verbatim>\<open>inverse_transform_names\<close>: when both are non-empty the call changes nothing and
  calls nothing.
\<close>

lemma compute_registration_guarded:
  "transform_names s \<noteq> [] \<Longrightarrow> inverse_transform_names s \<noteq> [] \<Longrightarrow>
     compute_registration tk s w moving fixed registration_method = (Inr (), s, w)"
  by (simp add: compute_registration_def)

text \<open>
  After a registration of the cpp backend, which assigns both lists, every later call is
  such a no-op, whatever its arguments and whatever the toolkit would answer.
\<close>

lemma compute_registration_cpp_cached:
  "compute_registration tk (computed ''cpp'') w moving fixed registration_method
     = (Inr (), computed ''cpp'', w)"
  by (rule compute_registration_guarded) (simp_all add: computed_cpp)

text \<open>
  C1. A later call to \<^verbatim>\<open>compute_registration\<close> on an object whose chain an earlier
  call has populated is to be a no-op. With the python backend it is not: the method of
  that backend stores the chain in \<^verbatim>\<open>reg_transform\<close> and never assigns the two lists of
  names the guard reads, so the second call below reads both images again, runs the
  registration again and replaces the cached chain.
\<close>

theorem compute_registration_python_recomputes:
  "(let (s0, w0) = init (resources ''python'') w_empty;
        (r1, s1, w1) = compute_registration tk_ok s0 w0 ''moving.nii.gz'' ''fixed.nii.gz'' ''SyN'';
        (r2, s2, w2) = compute_registration tk_ok s1 w1 ''moving.nii.gz'' ''fixed.nii.gz'' ''SyN''
    in r1 = Inr ()
       \<and> map_of (reg_transform s1) ''fwdtransforms''
           = Some (StrList [''/tmp/tmpaa1Warp.nii.gz'', ''/tmp/tmpaa0GenericAffine.mat''])
       \<and> map_of (reg_transform s1) ''invtransforms''
           = Some (StrList [''/tmp/tmpaa0GenericAffine.mat'', ''/tmp/tmpaa1InverseWarp.nii.gz''])
       \<and> transform_names s1 = [] \<and> inverse_transform_names s1 = []
       \<and> r2 = Inr ()
       \<and> new_calls w1 w2 =
           [ImageRead ''moving.nii.gz'', ImageRead ''fixed.nii.gz'', Registration 6 5 ''SyN'',
            ApplyTransforms 6 5
              (StrList [''/tmp/tmpaaaaaaa1Warp.nii.gz'', ''/tmp/tmpaaaaaaa0GenericAffine.mat''])
              ''linear'' [False, False],
            ImageWrite 8 ''/out/registration/registered_input_volume.nii.gz'']
       \<and> map_of (reg_transform s2) ''fwdtransforms''
           = Some (StrList [''/tmp/tmpaaaaaaa1Warp.nii.gz'', ''/tmp/tmpaaaaaaa0GenericAffine.mat''])
       \<and> reg_transform s2 \<noteq> reg_transform s1)"
  by (simp add: example_defs path_defs world_defs op_defs Let_def)

subsection \<open>Calls to the toolkit and retries\<close>

text \<open>
  C8, as the code has it. In one invocation of \<^verbatim>\<open>compute_registration\<close>,
  \<^verbatim>\<open>apply_registration_transform\<close> or \<^verbatim>\<open>apply_registration_inverse_transform\<close>,
  on any backend and from any state, the calls made are appended to the history, at most
  one of them runs a subprocess, at most one is \<^verbatim>\<open>ants.registration\<close>, at most one is
  \<^verbatim>\<open>ants.apply_transforms\<close>, and a call that raises is the last call of the
  invocation: nothing is retried and nothing follows a failure.
\<close>

theorem operations_call_once_without_retry:
  "single_attempt tk w (snd (snd (compute_registration tk s w moving fixed registration_method)))
   \<and> single_attempt tk w (snd (apply_registration_transform tk s w moving fixed interpolation))
   \<and> single_attempt tk w
        (snd (apply_registration_inverse_transform tk s w moving fixed interpolation label))"
  by (simp add: world_of_compute_registration apply_registration_transform_def
      apply_registration_inverse_transform_def Let_def single_attempt_no_call
      single_attempt_compute_python single_attempt_compute_cpp single_attempt_apply_python
      single_attempt_apply_cpp single_attempt_inverse_python single_attempt_inverse_cpp)

text \<open>
  An invocation whose third call raises: the registration of the python backend reads
  both images, the registration raises, and the invocation ends there with the error.
\<close>

theorem operations_call_once_without_retry_witness:
  "single_attempt tk_registration_raises w_empty
     (snd (snd (compute_registration tk_registration_raises (fresh ''python'') w_empty
                  ''moving.nii.gz'' ''fixed.nii.gz'' ''SyN'')))
   \<and> new_calls w_empty
        (snd (snd (compute_registration tk_registration_raises (fresh ''python'') w_empty
                     ''moving.nii.gz'' ''fixed.nii.gz'' ''SyN'')))
       = [ImageRead ''moving.nii.gz'', ImageRead ''fixed.nii.gz'', Registration 1 0 ''SyN'']
   \<and> raises tk_registration_raises [ImageRead ''moving.nii.gz'', ImageRead ''fixed.nii.gz'']
         (Registration 1 0 ''SyN'')
   \<and> fst (compute_registration tk_registration_raises (fresh ''python'') w_empty
            ''moving.nii.gz'' ''fixed.nii.gz'' ''SyN'')
       = Inl (ValueError (''Python-based ANTs registration failed.'' @ [CHR 0x0A]))"
  using operations_call_once_without_retry [of tk_registration_raises w_empty "fresh ''python''"
      "''moving.nii.gz''" "''fixed.nii.gz''" "''SyN''" "''linear''" "''tumor''"]
  by (simp add: example_defs path_defs world_defs op_defs python_registration_failed_def Let_def)

text \<open>
  The invocation does not make exactly one call: a registration of the python backend
  that succeeds makes five calls to the library (among them the registration and a
  resampling), and an apply of the cpp backend stopped by its check of the chain makes
  none.
\<close>

theorem compute_python_makes_five_calls_counterexample:
  "new_calls w_empty
     (snd (snd (compute_registration tk_ok (fresh ''python'') w_empty
                  ''moving.nii.gz'' ''fixed.nii.gz'' ''SyN'')))
   = [ImageRead ''moving.nii.gz'', ImageRead ''fixed.nii.gz'', Registration 1 0 ''SyN'',
      ApplyTransforms 1 0 (StrList [''/tmp/tmpaa1Warp.nii.gz'', ''/tmp/tmpaa0GenericAffine.mat''])
        ''linear'' [False, False],
      ImageWrite 3 ''/out/registration/registered_input_volume.nii.gz'']
   \<and> fst (compute_registration tk_ok (fresh ''python'') w_empty
            ''moving.nii.gz'' ''fixed.nii.gz'' ''SyN'') = Inr ()
   \<and> new_calls w_empty
        (snd (apply_registration_transform tk_ok (with_chain ''cpp'' []) w_empty
                ''moving.nii.gz'' ''fixed.nii.gz'' ''linear'')) = []"
  by (simp add: example_defs path_defs world_defs op_defs Let_def)

subsection \<open>Failures of the toolkit\<close>

text \<open>
  C2, as the code has it. When a call to the toolkit raises an exception, the
  registration of the python backend and the forward apply of either backend end with
  the \<^verbatim>\<open>ValueError\<close> of the method (\<open>python_registration_failed\<close>,
  \<open>python_apply_failed\<close>, \<open>cpp_apply_failed\<close>). Nothing is said here of the other
  three methods, whose handlers print, nor of a subprocess that ends with a status other
  than 0, which no method reads.
\<close>

theorem raised_call_surfaces_as_value_error:
  assumes "compute_registration tk s w moving fixed registration_method = (rc, sc, wc)"
    and "apply_registration_transform tk s w moving fixed interpolation = (ra, wa)"
  shows "(backend s = ''python'' \<and> some_call_raised tk (history w) (new_calls w wc)
            \<longrightarrow> rc = Inl python_registration_failed)
       \<and> (backend s = ''python'' \<and> some_call_raised tk (history w) (new_calls w wa)
            \<longrightarrow> ra = Inl python_apply_failed)
       \<and> (backend s = ''cpp'' \<and> some_call_raised tk (history w) (new_calls w wa)
            \<longrightarrow> ra = Inl cpp_apply_failed)"
proof -
  let ?w1 = "os_makedirs (registration_folder s) w"
  have c: "(\<lambda>res. some_call_raised tk (history w) (new_calls w (snd (snd res)))
                 \<longrightarrow> fst res = Inl python_registration_failed)
             (compute_registration_python tk s ?w1 moving fixed registration_method)"
    by (rule compute_python_rule) (simp_all add: new_calls_def)
  have p: "(\<lambda>res. some_call_raised tk (history w) (new_calls w (snd res))
                 \<longrightarrow> fst res = Inl python_apply_failed)
             (apply_registration_transform_python tk s ?w1 moving fixed interpolation)"
    by (rule apply_python_rule) (simp_all add: new_calls_def)
  have q: "(\<lambda>res. some_call_raised tk (history w) (new_calls w (snd res))
                 \<longrightarrow> fst res = Inl cpp_apply_failed)
             (apply_registration_transform_cpp tk s ?w1 moving fixed interpolation)"
    by (rule apply_cpp_rule) (simp_all add: new_calls_def invoke_def)
  have rc: "rc = fst (compute_registration tk s w moving fixed registration_method)"
    and wc: "wc = snd (snd (compute_registration tk s w moving fixed registration_method))"
    using assms(1) by simp_all
  have 1: "backend s = ''python'' \<and> some_call_raised tk (history w) (new_calls w wc)
            \<longrightarrow> rc = Inl python_registration_failed"
    unfolding rc wc world_of_compute_registration result_of_compute_registration
    using c by simp
  have 2: "(backend s = ''python'' \<and> some_call_raised tk (history w) (new_calls w wa)
            \<longrightarrow> ra = Inl python_apply_failed)
       \<and> (backend s = ''cpp'' \<and> some_call_raised tk (history w) (new_calls w wa)
            \<longrightarrow> ra = Inl cpp_apply_failed)"
    using assms(2) p q by (auto simp: apply_registration_transform_def Let_def)
  from 1 2 show ?thesis by simp
qed

text \<open>
  The registration of the python backend with a registration call that raises, and the
  forward apply of both backends with a toolkit that raises at every call.
\<close>

theorem raised_call_surfaces_as_value_error_witness:
  "backend (fresh ''python'') = ''python''
   \<and> some_call_raised tk_registration_raises (history w_empty)
         (new_calls w_empty
            (snd (snd (compute_registration tk_registration_raises (fresh ''python'') w_empty
                         ''moving.nii.gz'' ''fixed.nii.gz'' ''SyN''))))
   \<and> fst (compute_registration tk_registration_raises (fresh ''python'') w_empty
             ''moving.nii.gz'' ''fixed.nii.gz'' ''SyN'')
       = Inl (ValueError (''Python-based ANTs registration failed.'' @ [CHR 0x0A]))
   \<and> backend (with_chain ''cpp'' [''w.nii.gz'', ''a.mat'']) = ''cpp''
   \<and> some_call_raised tk_raising (history w_empty)
         (new_calls w_empty
            (snd (apply_registration_transform tk_raising (with_chain ''cpp'' [''w.nii.gz'', ''a.mat''])
                    w_empty ''moving.nii.gz'' ''fixed.nii.gz'' ''linear'')))
   \<and> fst (apply_registration_transform tk_raising (with_chain ''cpp'' [''w.nii.gz'', ''a.mat''])
             w_empty ''moving.nii.gz'' ''fixed.nii.gz'' ''linear'')
       = Inl (ValueError (''Cpp-based ANTs apply registration failed.'' @ [CHR 0x0A]))
   \<and> backend (with_chain ''python'' [''w.nii.gz'', ''a.mat'']) = ''python''
   \<and> some_call_raised tk_raising (history w_empty)
         (new_calls w_empty
            (snd (apply_registration_transform tk_raising (with_chain ''python'' [''w.nii.gz'', ''a.mat''])
                    w_empty ''moving.nii.gz'' ''fixed.nii.gz'' ''linear'')))
   \<and> fst (apply_registration_transform tk_raising (with_chain ''python'' [''w.nii.gz'', ''a.mat''])
             w_empty ''moving.nii.gz'' ''fixed.nii.gz'' ''linear'')
       = Inl (ValueError (''Python-based ANTs apply registration failed.'' @ [CHR 0x0A]))"
proof -
  let ?c = "\<lambda>tk s. compute_registration tk s w_empty ''moving.nii.gz'' ''fixed.nii.gz'' ''SyN''"
  let ?a = "\<lambda>tk s. apply_registration_transform tk s w_empty ''moving.nii.gz'' ''fixed.nii.gz'' ''linear''"
  let ?py = "fresh ''python''"
  let ?cc = "with_chain ''cpp'' [''w.nii.gz'', ''a.mat'']"
  let ?pc = "with_chain ''python'' [''w.nii.gz'', ''a.mat'']"
  have c: "?c tk s = (fst (?c tk s), fst (snd (?c tk s)), snd (snd (?c tk s)))"
    and a: "?a tk s = (fst (?a tk s), snd (?a tk s))" for tk s
    by simp_all
  have b: "backend ?py = ''python''" "backend ?cc = ''cpp''" "backend ?pc = ''python''"
    by (simp_all add: example_defs Let_def)
  have r1: "some_call_raised tk_registration_raises (history w_empty)
              (new_calls w_empty (snd (snd (?c tk_registration_raises ?py))))"
    by (simp add: example_defs path_defs world_defs op_defs Let_def)
  have r2: "some_call_raised tk_raising (history w_empty) (new_calls w_empty (snd (?a tk_raising ?cc)))"
    by (simp add: example_defs path_defs world_defs op_defs Let_def)
  have r3: "some_call_raised tk_raising (history w_empty) (new_calls w_empty (snd (?a tk_raising ?pc)))"
    by (simp add: example_defs path_defs world_defs op_defs Let_def)
  from raised_call_surfaces_as_value_error
      [OF c [of tk_registration_raises ?py] a [of tk_registration_raises ?py]]
    b(1) r1
  have 1: "fst (?c tk_registration_raises ?py) = Inl python_registration_failed" by blast
  from raised_call_surfaces_as_value_error [OF c [of tk_raising ?cc] a [of tk_raising ?cc]] b(2) r2
  have 2: "fst (?a tk_raising ?cc) = Inl cpp_apply_failed" by blast
  from raised_call_surfaces_as_value_error [OF c [of tk_raising ?pc] a [of tk_raising ?pc]] b(3) r3
  have 3: "fst (?a tk_raising ?pc) = Inl python_apply_failed" by blast
  from b r1 r2 r3 1 2 3 show ?thesis
    unfolding python_registration_failed_def cpp_apply_failed_def python_apply_failed_def
    by blast
qed

text \<open>
  A failure that is not surfaced: the forward apply of the cpp backend returns its path
  although the subprocess ended with status 1; the registration of the cpp backend
  returns normally although \<^verbatim>\<open>subprocess.call\<close> raised; the inverse apply of the python
  backend returns \<^verbatim>\<open>None\<close> although reading the image raised.
\<close>

theorem failure_not_surfaced_counterexample:
  "exit_status tk_exit_1 []
      (SubprocessPopen
         [''/opt/ants/bin/antsApplyTransforms'', ''-d'', ''3'', ''-r'', ''fixed.nii.gz'',
          ''-i'', ''/data/moving.nii.gz'', ''-t'', ''w.nii.gz'', ''-t'', ''a.mat'',
          ''-o'', ''/out/registration/moving_reg_atlas.nii.gz'', ''-n'', ''Linear''] False) = 1
   \<and> apply_registration_transform_cpp tk_exit_1 (with_chain ''cpp'' [''w.nii.gz'', ''a.mat''])
         w_empty ''/data/moving.nii.gz'' ''fixed.nii.gz'' ''linear''
       = (Inr (Some ''/out/registration/moving_reg_atlas.nii.gz''),
          w_empty\<lparr>history :=
            [SubprocessPopen
               [''/opt/ants/bin/antsApplyTransforms'', ''-d'', ''3'', ''-r'', ''fixed.nii.gz'',
                ''-i'', ''/data/moving.nii.gz'', ''-t'', ''w.nii.gz'', ''-t'', ''a.mat'',
                ''-o'', ''/out/registration/moving_reg_atlas.nii.gz'', ''-n'', ''Linear''] False]\<rparr>)
   \<and> raises tk_raising []
        (SubprocessCall
           [''/opt/ants/Scripts/antsRegistrationSyNQuick.sh'', ''-d3'', ''-ffixed.nii.gz'',
            ''-mmoving.nii.gz'', ''-o/out/registration/'', ''-ts'', ''-n8''] False)
   \<and> compute_registration_cpp tk_raising (fresh ''cpp'') w_empty
         ''moving.nii.gz'' ''fixed.nii.gz'' ''SyN''
       = (Inr (), fresh ''cpp'',
          w_empty\<lparr>history :=
            [SubprocessCall
               [''/opt/ants/Scripts/antsRegistrationSyNQuick.sh'', ''-d3'', ''-ffixed.nii.gz'',
                ''-mmoving.nii.gz'', ''-o/out/registration/'', ''-ts'', ''-n8''] False]\<rparr>)
   \<and> raises tk_raising [] (ImageRead ''labels.nii.gz'')
   \<and> apply_registration_inverse_transform_python tk_raising
         (with_chain ''python'' [''a.mat'', ''w.nii.gz'']) w_empty
         ''labels.nii.gz'' ''fixed.nii.gz'' ''nearestNeighbor'' ''tumor''
       = (Inr None, w_empty\<lparr>history := [ImageRead ''labels.nii.gz'']\<rparr>)"
  by (simp add: example_defs path_defs world_defs op_defs Let_def)

subsection \<open>The chain lengths of the cpp backend\<close>




subsection \<open>Applying the inverse chain\<close>



subsection \<open>Applying the forward chain\<close>



subsection \<open>A missing or an empty chain\<close>




subsection \<open>Clearing the cache\<close>



subsection \<open>A backend that is neither python nor cpp\<close>

text \<open>
  C9. With any other backend \<^verbatim>\<open>compute_registration\<close>, when its guard lets it run
  (one of the two lists of names is empty, as both are on such an object from its
  construction on), calls nothing, sets \<^verbatim>\<open>registration_computed\<close> and returns
  \<^verbatim>\<open>None\<close>, and both apply dispatchers return \<^verbatim>\<open>None\<close>; all that happens is that
  the folder is created.
\<close>

theorem unknown_backend_does_no_work:
  assumes "backend s \<noteq> ''python''" and "backend s \<noteq> ''cpp''"
  shows "(transform_names s = [] \<or> inverse_transform_names s = [] \<longrightarrow>
            compute_registration tk s w moving fixed registration_method
              = (Inr (), s\<lparr>registration_computed := True\<rparr>, os_makedirs (registration_folder s) w))
       \<and> new_calls w (snd (snd (compute_registration tk s w moving fixed registration_method))) = []
       \<and> apply_registration_transform tk s w moving fixed interpolation
           = (Inr None, os_makedirs (registration_folder s) w)
       \<and> apply_registration_inverse_transform tk s w moving fixed interpolation label
           = (Inr None, os_makedirs (registration_folder s) w)
       \<and> new_calls w (os_makedirs (registration_folder s) w) = []"
  using assms
  by (auto simp: compute_registration_def apply_registration_transform_def
      apply_registration_inverse_transform_def Let_def)

text \<open>
  A fresh object with the backend \<^verbatim>\<open>itk\<close>.
\<close>

theorem unknown_backend_does_no_work_witness:
  "backend (fresh ''itk'') \<noteq> ''python'' \<and> backend (fresh ''itk'') \<noteq> ''cpp''
   \<and> transform_names (fresh ''itk'') = []
   \<and> compute_registration tk_ok (fresh ''itk'') w_empty ''moving.nii.gz'' ''fixed.nii.gz'' ''SyN''
       = (Inr (), (fresh ''itk'')\<lparr>registration_computed := True\<rparr>,
          os_makedirs ''/out/registration/'' w_empty)
   \<and> registration_computed (fresh ''itk'') = False
   \<and> apply_registration_transform tk_ok (fresh ''itk'') w_empty ''moving.nii.gz'' ''fixed.nii.gz''
         ''linear''
       = (Inr None, os_makedirs ''/out/registration/'' w_empty)
   \<and> apply_registration_inverse_transform tk_ok (fresh ''itk'') w_empty ''moving.nii.gz''
         ''fixed.nii.gz'' ''linear'' ''tumor''
       = (Inr None, os_makedirs ''/out/registration/'' w_empty)"
  using unknown_backend_does_no_work [of "fresh ''itk''" tk_ok w_empty "''moving.nii.gz''"
      "''fixed.nii.gz''" "''SyN''" "''linear''" "''tumor''"]
  by (simp add: example_defs path_defs Let_def)

subsection \<open>The output path of the python forward apply\<close>

text \<open>
  C10. Two successive forward applies of the python backend that succeed, with any
  inputs, return the same path, the folder joined with
  \<^verbatim>\<open>warped_input_to_output_space.nii.gz\<close>, and the last call of each writes its image
  to that path.
\<close>

theorem python_forward_apply_fixed_output_path:
  assumes "apply_registration_transform_python tk s w moving1 fixed1 interpolation1 = (Inr r1, w1)"
    and "apply_registration_transform_python tk s w1 moving2 fixed2 interpolation2 = (Inr r2, w2)"
  shows "r1 = Some (os_path_join (registration_folder s) ''warped_input_to_output_space.nii.gz'')
       \<and> r2 = r1
       \<and> (\<exists>image1. last (history w1) =
             ImageWrite image1
               (os_path_join (registration_folder s) ''warped_input_to_output_space.nii.gz''))
       \<and> (\<exists>image2. last (history w2) =
             ImageWrite image2
               (os_path_join (registration_folder s) ''warped_input_to_output_space.nii.gz''))"
proof -
  have written: "(\<lambda>res. \<forall>r w'. res = (Inr r, w') \<longrightarrow>
           r = Some (os_path_join (registration_folder s) ''warped_input_to_output_space.nii.gz'')
           \<and> (\<exists>image. last (history w') =
                 ImageWrite image
                   (os_path_join (registration_folder s) ''warped_input_to_output_space.nii.gz'')))
        (apply_registration_transform_python tk s w0 moving fixed interpolation)"
    for w0 moving fixed interpolation
    by (rule apply_python_rule) simp_all
  from written [of w moving1 fixed1 interpolation1] written [of w1 moving2 fixed2 interpolation2]
    assms
  show ?thesis by simp
qed

text \<open>
  Two applies with different images and interpolations.
\<close>

theorem python_forward_apply_fixed_output_path_witness:
  "apply_registration_transform_python tk_ok (with_chain ''python'' [''w.nii.gz'', ''a.mat''])
       w_empty ''/data/t1.nii.gz'' ''atlas.nii.gz'' ''linear''
     = (Inr (Some ''/out/registration/warped_input_to_output_space.nii.gz''),
        w_empty\<lparr>history :=
          [ImageRead ''/data/t1.nii.gz'', ImageRead ''atlas.nii.gz'',
           ApplyTransforms 1 0 (StrList [''w.nii.gz'', ''a.mat'']) ''linear'' [False, False],
           ImageWrite 2 ''/out/registration/warped_input_to_output_space.nii.gz'']\<rparr>)
   \<and> apply_registration_transform_python tk_ok (with_chain ''python'' [''w.nii.gz'', ''a.mat''])
       (w_empty\<lparr>history :=
          [ImageRead ''/data/t1.nii.gz'', ImageRead ''atlas.nii.gz'',
           ApplyTransforms 1 0 (StrList [''w.nii.gz'', ''a.mat'']) ''linear'' [False, False],
           ImageWrite 2 ''/out/registration/warped_input_to_output_space.nii.gz'']\<rparr>)
       ''/data/flair.nii.gz'' ''other_atlas.nii.gz'' ''nearestNeighbor''
     = (Inr (Some ''/out/registration/warped_input_to_output_space.nii.gz''),
        w_empty\<lparr>history :=
          [ImageRead ''/data/t1.nii.gz'', ImageRead ''atlas.nii.gz'',
           ApplyTransforms 1 0 (StrList [''w.nii.gz'', ''a.mat'']) ''linear'' [False, False],
           ImageWrite 2 ''/out/registration/warped_input_to_output_space.nii.gz'',
           ImageRead ''/data/flair.nii.gz'', ImageRead ''other_atlas.nii.gz'',
           ApplyTransforms 5 4 (StrList [''w.nii.gz'', ''a.mat'']) ''nearestNeighbor'' [False, False],
           ImageWrite 6 ''/out/registration/warped_input_to_output_space.nii.gz'']\<rparr>)"
proof -
  let ?s = "with_chain ''python'' [''w.nii.gz'', ''a.mat'']"
  let ?h1 = "[ImageRead ''/data/t1.nii.gz'', ImageRead ''atlas.nii.gz'',
           ApplyTransforms 1 0 (StrList [''w.nii.gz'', ''a.mat'']) ''linear'' [False, False],
           ImageWrite 2 ''/out/registration/warped_input_to_output_space.nii.gz'']"
  have a: "apply_registration_transform_python tk_ok ?s w_empty ''/data/t1.nii.gz'' ''atlas.nii.gz''
             ''linear''
           = (Inr (Some ''/out/registration/warped_input_to_output_space.nii.gz''),
              w_empty\<lparr>history := ?h1\<rparr>)"
    by (simp add: example_defs path_defs world_defs op_defs Let_def)
  have b: "apply_registration_transform_python tk_ok ?s (w_empty\<lparr>history := ?h1\<rparr>)
             ''/data/flair.nii.gz'' ''other_atlas.nii.gz'' ''nearestNeighbor''
           = (Inr (Some ''/out/registration/warped_input_to_output_space.nii.gz''),
              w_empty\<lparr>history := ?h1 @
                [ImageRead ''/data/flair.nii.gz'', ImageRead ''other_atlas.nii.gz'',
                 ApplyTransforms 5 4 (StrList [''w.nii.gz'', ''a.mat'']) ''nearestNeighbor''
                   [False, False],
                 ImageWrite 6 ''/out/registration/warped_input_to_output_space.nii.gz'']\<rparr>)"
    by (simp add: example_defs path_defs world_defs op_defs Let_def)
  from python_forward_apply_fixed_output_path [OF a b] a b show ?thesis by simp
qed

end
